theory Spec2Isabelle
  imports Main "HOL-Library.Sublist" "HOL-Library.Word"
begin

section \<open>Values carried by the realtime channel\<close>

text \<open>
  Every handler of the socket store starts with \<^verbatim>\<open>JSON.parse(stream)\<close> and then reads
  properties of the parsed value. The parsed value is modelled by \<open>json\<close>; a property that
  is missing reads as \<^verbatim>\<open>undefined\<close>, which is \<open>None\<close> of \<open>json option\<close>. Numbers are
  only ever tested for being zero here, so integers stand for them.
\<close>

datatype json =
    JNull
  | JBool bool
  | JNum int
  | JStr string
  | JArr "json list"
  | JObj "(string \<times> json) list"

text \<open>\<^verbatim>\<open>Boolean(x)\<close>, which is also the test made by \<^verbatim>\<open>x || y\<close>.\<close>

fun truthy :: "json option \<Rightarrow> bool" where
  "truthy None = False"
| "truthy (Some JNull) = False"
| "truthy (Some (JBool b)) = b"
| "truthy (Some (JNum n)) = (n \<noteq> 0)"
| "truthy (Some (JStr s)) = (s \<noteq> [])"
| "truthy (Some (JArr xs)) = True"
| "truthy (Some (JObj kvs)) = True"

text \<open>\<^verbatim>\<open>a || b\<close>: the left operand when it is truthy, the right one otherwise.\<close>

definition js_or :: "json option \<Rightarrow> json option \<Rightarrow> json option" where
  "js_or a b = (if truthy a then a else b)"

text \<open>\<^verbatim>\<open>x?.k\<close>: the property \<open>k\<close> of an object, \<^verbatim>\<open>undefined\<close> on \<^verbatim>\<open>undefined\<close>,
  \<^verbatim>\<open>null\<close> and on values that have no such property.\<close>

fun opt_field :: "string \<Rightarrow> json option \<Rightarrow> json option" where
  "opt_field k (Some (JObj kvs)) = map_of kvs k"
| "opt_field k v = None"

section \<open>The client state\<close>

text \<open>
  A \<^verbatim>\<open>StoreItem\<close>: the handlers read its \<^verbatim>\<open>_id\<close> and, for the text of a notification,
  its \<^verbatim>\<open>title\<close>; the other properties are carried along untouched.
\<close>

record store_item =
  item_id :: string
  item_title :: "string option"
  item_rest :: "(string \<times> json) list"

datatype severity = Info | Success | Warning | Error

record toast =
  toast_severity :: severity
  toast_message :: "json option"
  toast_opts :: "json option"

record config_state =
  cfg_app :: "json option"
  cfg_tasks :: "json option"
  cfg_folders :: "json option"
  cfg_presets :: "json option"
  cfg_dl_fields :: "json option"
  cfg_paused :: bool

text \<open>
  Modelled from the spec: the stores \<^verbatim>\<open>useStateStore\<close>, \<^verbatim>\<open>useConfigStore\<close> and
  \<^verbatim>\<open>useNotification\<close> that the handlers call are not among the sources. The spec has
  Job records keyed by id and partitioned into an active queue and a history, and has a
  client resynchronise from a full-state snapshot, so each of the two collections is a map
  from id to item, \<^verbatim>\<open>addAll\<close> installs the snapshot's collection, and
  \<^verbatim>\<open>add\<close>, \<^verbatim>\<open>update\<close>, \<^verbatim>\<open>remove\<close>, \<^verbatim>\<open>has\<close> and \<^verbatim>\<open>get\<close> are the operations
  on one key that their names say. The configuration is a record whose keys
  \<^verbatim>\<open>setAll\<close> and \<^verbatim>\<open>update\<close> assign, and a notification raised through
  \<^verbatim>\<open>toast\<close> is appended to the list of notifications shown.
\<close>

record client =
  queue :: "string \<rightharpoonup> store_item"
  history :: "string \<rightharpoonup> store_item"
  config :: config_state
  toasts :: "toast list"

datatype coll = CQueue | CHistory

definition coll_of :: "coll \<Rightarrow> client \<Rightarrow> (string \<rightharpoonup> store_item)" where
  "coll_of c st = (case c of CQueue \<Rightarrow> queue st | CHistory \<Rightarrow> history st)"

definition set_coll :: "coll \<Rightarrow> (string \<rightharpoonup> store_item) \<Rightarrow> client \<Rightarrow> client" where
  "set_coll c m st = (case c of CQueue \<Rightarrow> st\<lparr>queue := m\<rparr> | CHistory \<Rightarrow> st\<lparr>history := m\<rparr>)"

definition store_has :: "coll \<Rightarrow> string \<Rightarrow> client \<Rightarrow> bool" where
  "store_has c k st = (coll_of c st k \<noteq> None)"

definition store_get :: "coll \<Rightarrow> string \<Rightarrow> client \<Rightarrow> store_item option" where
  "store_get c k st = coll_of c st k"

definition store_add :: "coll \<Rightarrow> string \<Rightarrow> store_item \<Rightarrow> client \<Rightarrow> client" where
  "store_add c k v st = set_coll c ((coll_of c st)(k \<mapsto> v)) st"

definition store_update :: "coll \<Rightarrow> string \<Rightarrow> store_item \<Rightarrow> client \<Rightarrow> client" where
  "store_update c k v st = set_coll c ((coll_of c st)(k \<mapsto> v)) st"

definition store_remove :: "coll \<Rightarrow> string \<Rightarrow> client \<Rightarrow> client" where
  "store_remove c k st = set_coll c ((coll_of c st)(k := None)) st"

definition store_addAll :: "coll \<Rightarrow> (string \<rightharpoonup> store_item) \<Rightarrow> client \<Rightarrow> client" where
  "store_addAll c m st = set_coll c m st"

definition notify :: "severity \<Rightarrow> json option \<Rightarrow> json option \<Rightarrow> client \<Rightarrow> client" where
  "notify sev msg opts st =
     st\<lparr>toasts := toasts st @
       [\<lparr>toast_severity = sev, toast_message = msg, toast_opts = opts\<rparr>]\<rparr>"

text \<open>The state of a client that has received nothing yet.\<close>

definition empty_client :: client where
  "empty_client =
     \<lparr>queue = Map.empty, history = Map.empty,
      config = \<lparr>cfg_app = None, cfg_tasks = None, cfg_folders = None, cfg_presets = None,
                cfg_dl_fields = None, cfg_paused = False\<rparr>,
      toasts = []\<rparr>"

text \<open>
  The text \<^verbatim>\<open>ag(stateStore.get('queue', id, {}), 'title')\<close> put into a template string:
  \<^verbatim>\<open>ag\<close> answers \<^verbatim>\<open>null\<close> when the item or its title is missing.
\<close>

definition title_text :: "store_item option \<Rightarrow> string" where
  "title_text it =
     (case it of
        None \<Rightarrow> ''null''
      | Some i \<Rightarrow> (case item_title i of None \<Rightarrow> ''null'' | Some t \<Rightarrow> t))"

section \<open>The handlers of the socket store\<close>

subsection \<open>\<^verbatim>\<open>connected\<close>, and \<^verbatim>\<open>initial_data\<close> of the legacy store\<close>

text \<open>
  The snapshot sent on connection (\<^verbatim>\<open>json.data\<close> of the event, the whole event in the
  legacy store): the configuration values are passed on as they are, the pause flag goes
  through \<^verbatim>\<open>Boolean\<close>, and a missing collection (\<open>None\<close>) is read as the empty object.
\<close>

record snapshot =
  snap_config :: "json option"
  snap_tasks :: "json option"
  snap_folders :: "json option"
  snap_presets :: "json option"
  snap_dl_fields :: "json option"
  snap_paused :: "json option"
  snap_queue :: "(string \<rightharpoonup> store_item) option"
  snap_done :: "(string \<rightharpoonup> store_item) option"

definition or_empty :: "(string \<rightharpoonup> store_item) option \<Rightarrow> (string \<rightharpoonup> store_item)" where
  "or_empty m = (case m of None \<Rightarrow> Map.empty | Some x \<Rightarrow> x)"

definition on_connected :: "snapshot \<Rightarrow> client \<Rightarrow> client" where
  "on_connected d st =
     (let st1 = st\<lparr>config := (config st)
                 \<lparr>cfg_app := snap_config d,
                  cfg_tasks := snap_tasks d,
                  cfg_folders := snap_folders d,
                  cfg_presets := snap_presets d,
                  cfg_dl_fields := snap_dl_fields d,
                  cfg_paused := truthy (snap_paused d)\<rparr>\<rparr>;
          st2 = store_addAll CQueue (or_empty (snap_queue d)) st1
      in store_addAll CHistory (or_empty (snap_done d)) st2)"

definition legacy_on_initial_data :: "snapshot \<Rightarrow> client \<Rightarrow> client" where
  "legacy_on_initial_data d st =
     (let st1 = st\<lparr>config := (config st)
                 \<lparr>cfg_app := snap_config d,
                  cfg_tasks := snap_tasks d,
                  cfg_folders := snap_folders d,
                  cfg_presets := snap_presets d,
                  cfg_paused := truthy (snap_paused d)\<rparr>\<rparr>;
          st2 = store_addAll CQueue (or_empty (snap_queue d)) st1
      in store_addAll CHistory (or_empty (snap_done d)) st2)"

subsection \<open>\<^verbatim>\<open>item_added\<close>\<close>

definition on_item_added :: "store_item \<Rightarrow> client \<Rightarrow> client" where
  "on_item_added item st =
     (let st1 = store_add CQueue (item_id item) item st
      in notify Success
           (Some (JStr (''Item queued: '' @ title_text (store_get CQueue (item_id item) st1))))
           None st1)"

subsection \<open>The log events\<close>

datatype log_event = Log_info | Log_success | Log_warning | Log_error

record log_payload =
  log_message :: "json option"
  log_data :: "json option"

definition on_log :: "log_event \<Rightarrow> log_payload \<Rightarrow> client \<Rightarrow> client" where
  "on_log event json st =
     (let message = js_or (log_message json) (opt_field ''message'' (log_data json));
          data = js_or (js_or (opt_field ''data'' (log_data json)) (log_data json))
                   (Some (JObj []))
      in case event of
           Log_info \<Rightarrow> notify Info message data st
         | Log_success \<Rightarrow> notify Success message data st
         | Log_warning \<Rightarrow> notify Warning message data st
         | Log_error \<Rightarrow> notify Error message data st)"

text \<open>The legacy store has one handler for each of the four events.\<close>

definition legacy_on_log :: "log_event \<Rightarrow> log_payload \<Rightarrow> client \<Rightarrow> client" where
  "legacy_on_log event json st =
     (case event of
        Log_info \<Rightarrow> notify Info (log_message json) None st
      | Log_success \<Rightarrow> notify Success (log_message json) None st
      | Log_warning \<Rightarrow> notify Warning (log_message json) None st
      | Log_error \<Rightarrow> notify Error (log_message json) None st)"

text \<open>The severity that belongs to a log event by its name.\<close>

fun severity_of :: "log_event \<Rightarrow> severity" where
  "severity_of Log_info = Info"
| "severity_of Log_success = Success"
| "severity_of Log_warning = Warning"
| "severity_of Log_error = Error"

subsection \<open>\<^verbatim>\<open>item_completed\<close>, and \<^verbatim>\<open>completed\<close> of the legacy store\<close>

definition on_item_completed :: "store_item \<Rightarrow> client \<Rightarrow> client" where
  "on_item_completed item st =
     (let id = item_id item;
          st1 = (if store_has CQueue id st then store_remove CQueue id st else st)
      in if store_has CHistory id st1 then store_update CHistory id item st1
         else store_add CHistory id item st1)"

definition legacy_on_completed :: "store_item \<Rightarrow> client \<Rightarrow> client" where
  "legacy_on_completed item st =
     (let id = item_id item;
          st1 = (if store_has CQueue id st then store_remove CQueue id st else st)
      in store_add CHistory id item st1)"

subsection \<open>\<^verbatim>\<open>item_cancelled\<close>, and \<^verbatim>\<open>cancelled\<close> of the legacy store\<close>

definition on_item_cancelled :: "store_item \<Rightarrow> client \<Rightarrow> client" where
  "on_item_cancelled item st =
     (let id = item_id item in
      if \<not> store_has CQueue id st then st
      else
        (let st1 = notify Warning
               (Some (JStr (''Download cancelled: '' @ title_text (store_get CQueue id st))))
               None st
         in if store_has CQueue id st1 then store_remove CQueue id st1 else st1))"

definition legacy_on_cancelled :: "store_item \<Rightarrow> client \<Rightarrow> client" where
  "legacy_on_cancelled item st =
     (let id = item_id item in
      if \<not> store_has CQueue id st then st
      else
        (let st1 = notify Warning
               (Some (JStr (''Download cancelled: '' @ title_text (store_get CQueue id st))))
               None st
         in if store_has CQueue id st1 then store_remove CQueue id st1 else st1))"

subsection \<open>\<^verbatim>\<open>item_deleted\<close>, and \<^verbatim>\<open>cleared\<close> of the legacy store\<close>

definition on_item_deleted :: "store_item \<Rightarrow> client \<Rightarrow> client" where
  "on_item_deleted item st =
     (let id = item_id item in
      if \<not> store_has CHistory id st then st
      else store_remove CHistory id st)"

definition legacy_on_cleared :: "store_item \<Rightarrow> client \<Rightarrow> client" where
  "legacy_on_cleared item st =
     (let id = item_id item in
      if \<not> store_has CHistory id st then st
      else store_remove CHistory id st)"

subsection \<open>\<^verbatim>\<open>item_updated\<close>\<close>

definition on_item_updated :: "store_item \<Rightarrow> client \<Rightarrow> client" where
  "on_item_updated item st =
     (let id = item_id item in
      if store_has CHistory id st then store_update CHistory id item st
      else if store_has CQueue id st then store_update CQueue id item st
      else st)"

subsection \<open>\<^verbatim>\<open>item_moved\<close>\<close>

record moved =
  moved_to :: string
  moved_item :: store_item

definition on_item_moved :: "moved \<Rightarrow> client \<Rightarrow> client" where
  "on_item_moved d st =
     (let to = moved_to d;
          id = item_id (moved_item d);
          st1 = (if to = ''queue''
                 then store_add CQueue id (moved_item d)
                        (if store_has CHistory id st then store_remove CHistory id st else st)
                 else st)
      in if to = ''history''
         then store_add CHistory id (moved_item d)
                (if store_has CQueue id st1 then store_remove CQueue id st1 else st1)
         else st1)"

subsection \<open>\<^verbatim>\<open>paused\<close> and \<^verbatim>\<open>resumed\<close>, and \<^verbatim>\<open>paused\<close> of the legacy store\<close>

datatype pause_event = Ev_paused | Ev_resumed

text \<open>The argument \<open>p\<close> is the property \<^verbatim>\<open>paused\<close> of the payload
  (\<^verbatim>\<open>json.data.paused\<close>; \<^verbatim>\<open>json.paused\<close> in the legacy store).\<close>

definition on_paused_resumed :: "pause_event \<Rightarrow> json option \<Rightarrow> client \<Rightarrow> client" where
  "on_paused_resumed event p st =
     (let pausedState = truthy p;
          st1 = st\<lparr>config := (config st)\<lparr>cfg_paused := pausedState\<rparr>\<rparr>
      in if event = Ev_resumed
         then notify Success (Some (JStr ''Download queue resumed.'')) None st1
         else notify Warning (Some (JStr ''Download queue paused.''))
                (Some (JObj [(''timeout'', JNum 10000)])) st1)"

definition legacy_on_paused :: "json option \<Rightarrow> client \<Rightarrow> client" where
  "legacy_on_paused p st =
     (let pausedState = truthy p;
          st1 = st\<lparr>config := (config st)\<lparr>cfg_paused := pausedState\<rparr>\<rparr>
      in if pausedState = False
         then notify Success (Some (JStr ''Download queue resumed.'')) None st1
         else notify Warning (Some (JStr ''Download queue paused.''))
                (Some (JObj [(''timeout'', JNum 10000)])) st1)"

section \<open>The helpers of the user interface\<close>

datatype js_error = DelimiterRequired | InvalidCharacterError | SyntaxError | RangeError

subsection \<open>\<^verbatim>\<open>iTrim\<close>, \<^verbatim>\<open>eTrim\<close>, \<^verbatim>\<open>sTrim\<close>\<close>

text \<open>
  \<^verbatim>\<open>iTrim\<close> builds the regular expressions \<^verbatim>\<open>^[delim]+\<close> and \<^verbatim>\<open>[delim]+$\<close> and
  replaces their match by the empty string, that is, it drops the longest run of
  characters of the class \<^verbatim>\<open>[delim]\<close> at the start, at the end, or at both. The class is
  read as the set of the characters of \<open>delim\<close>. That is what the regular expression
  means for \<^verbatim>\<open>/\<close>, the delimiter that \<^verbatim>\<open>uri\<close> and \<^verbatim>\<open>makeDownload\<close> pass, for
  \<^verbatim>\<open>]\<close> and the backslash alone, which the function escapes itself, and for every
  delimiter made of characters that mean themselves in a class. It is not what it means
  for a delimiter with \<^verbatim>\<open>^\<close> in first place (a negated class), with a range such as
  \<^verbatim>\<open>a-c\<close>, with \<^verbatim>\<open>]\<close> next to other characters (the class ends there) or with a
  backslash next to other characters; such delimiters are outside this model.
  An empty string is returned before the delimiter is looked at; an empty delimiter
  throws.
\<close>

datatype position = Start | End | Both

definition iTrim :: "string \<Rightarrow> string \<Rightarrow> position \<Rightarrow> js_error + string" where
  "iTrim str delim position =
     (if str = [] then Inr str
      else if delim = [] then Inl DelimiterRequired
      else
        (let s1 = (if position = Both \<or> position = Start
                   then dropWhile (\<lambda>c. c \<in> set delim) str else str);
             s2 = (if position = Both \<or> position = End
                   then rev (dropWhile (\<lambda>c. c \<in> set delim) (rev s1)) else s1)
         in Inr s2))"

definition eTrim :: "string \<Rightarrow> string \<Rightarrow> js_error + string" where
  "eTrim str delim = iTrim str delim End"

definition sTrim :: "string \<Rightarrow> string \<Rightarrow> js_error + string" where
  "sTrim str delim = iTrim str delim Start"

subsection \<open>\<^verbatim>\<open>uri\<close>\<close>

text \<open>The first argument is \<^verbatim>\<open>runtimeConfig.app.baseURL\<close>, which the function reads from
  the runtime configuration.\<close>

definition uri :: "string \<Rightarrow> string \<Rightarrow> js_error + string" where
  "uri baseURL u =
     (if u = [] \<or> baseURL = ''/'' \<or> \<not> prefix ''/'' u then Inr u
      else if prefix baseURL u then Inr u
      else
        (case eTrim baseURL ''/'' of
           Inl e \<Rightarrow> Inl e
         | Inr b \<Rightarrow>
             (case sTrim u ''/'' of
                Inl e \<Rightarrow> Inl e
              | Inr t \<Rightarrow> Inr (b @ ''/'' @ t))))"

text \<open>\<^verbatim>\<open>uri(uri(u))\<close>: the second call runs when the first has returned.\<close>

definition uri_twice :: "string \<Rightarrow> string \<Rightarrow> js_error + string" where
  "uri_twice baseURL u = (case uri baseURL u of Inl e \<Rightarrow> Inl e | Inr r \<Rightarrow> uri baseURL r)"

subsection \<open>\<^verbatim>\<open>btoa\<close> and \<^verbatim>\<open>atob\<close>\<close>








subsection \<open>\<^verbatim>\<open>encode\<close> and \<^verbatim>\<open>decode\<close>\<close>









section \<open>The download engine\<close>

text \<open>
  Modelled from the spec: the engine itself (Queue Store, Job State Machine and Dispatcher)
  is not among the sources, which hold the client side only. The spec gives a Job an id
  and a status, with the transitions
  \<^verbatim>\<open>pending -> downloading -> {postprocessing -> completed | error} | completed | error\<close>
  and \<^verbatim>\<open>pending|downloading -> cancelled\<close>; a Dispatcher with \<open>N\<close> execution slots,
  where an idle slot takes the oldest pending Job unless the process-wide pause flag is
  set, \<^verbatim>\<open>pending -> downloading\<close> happens only if the Dispatcher holds a free slot, and a
  slot is free again when its Job reaches a terminal status; a cancelled pending Job is
  removed; a Job is deleted on explicit user action; and on startup every Job found
  downloading or postprocessing is reset to pending. The engine state is the explicit
  state object of the spec's design notes; the steps of concurrent workers are
  interleaved, one operation at a time.
\<close>

datatype status = Pending | Downloading | Postprocessing | Completed | Errored | Cancelled

record job =
  job_id :: nat
  job_status :: status

record engine =
  pool_size :: nat
  eng_paused :: bool
  jobs :: "job list"

datatype operation =
    Submit nat
  | Dispatch
  | Postprocess nat
  | Complete nat
  | Fail nat
  | Cancel nat
  | Delete nat
  | Pause
  | Resume
  | Restart

definition init_engine :: "nat \<Rightarrow> engine" where
  "init_engine n = \<lparr>pool_size = n, eng_paused = False, jobs = []\<rparr>"

text \<open>A Job occupies a slot from its dispatch until it reaches a terminal status.\<close>

definition busy :: "job \<Rightarrow> bool" where
  "busy j = (job_status j = Downloading \<or> job_status j = Postprocessing)"

definition busy_count :: "engine \<Rightarrow> nat" where
  "busy_count e = length (filter busy (jobs e))"

definition downloading_count :: "engine \<Rightarrow> nat" where
  "downloading_count e = length (filter (\<lambda>j. job_status j = Downloading) (jobs e))"

text \<open>The oldest pending Job, in insertion order, starts downloading.\<close>

fun dispatch_oldest :: "job list \<Rightarrow> job list" where
  "dispatch_oldest [] = []"
| "dispatch_oldest (j # js) =
     (if job_status j = Pending then j\<lparr>job_status := Downloading\<rparr> # js
      else j # dispatch_oldest js)"

definition transition :: "nat \<Rightarrow> (status \<Rightarrow> status) \<Rightarrow> job list \<Rightarrow> job list" where
  "transition i f js = map (\<lambda>j. if job_id j = i then j\<lparr>job_status := f (job_status j)\<rparr> else j) js"

fun step :: "operation \<Rightarrow> engine \<Rightarrow> engine" where
  "step (Submit i) e =
     (if i \<in> job_id ` set (jobs e) then e
      else e\<lparr>jobs := jobs e @ [\<lparr>job_id = i, job_status = Pending\<rparr>]\<rparr>)"
| "step Dispatch e =
     (if eng_paused e then e
      else if busy_count e < pool_size e then e\<lparr>jobs := dispatch_oldest (jobs e)\<rparr>
      else e)"
| "step (Postprocess i) e =
     e\<lparr>jobs := transition i (\<lambda>s. if s = Downloading then Postprocessing else s) (jobs e)\<rparr>"
| "step (Complete i) e =
     e\<lparr>jobs := transition i
        (\<lambda>s. if s = Downloading \<or> s = Postprocessing then Completed else s) (jobs e)\<rparr>"
| "step (Fail i) e =
     e\<lparr>jobs := transition i
        (\<lambda>s. if s = Downloading \<or> s = Postprocessing then Errored else s) (jobs e)\<rparr>"
| "step (Cancel i) e =
     e\<lparr>jobs := transition i (\<lambda>s. if s = Downloading then Cancelled else s)
        (filter (\<lambda>j. \<not> (job_id j = i \<and> job_status j = Pending)) (jobs e))\<rparr>"
| "step (Delete i) e = e\<lparr>jobs := filter (\<lambda>j. job_id j \<noteq> i) (jobs e)\<rparr>"
| "step Pause e = e\<lparr>eng_paused := True\<rparr>"
| "step Resume e = e\<lparr>eng_paused := False\<rparr>"
| "step Restart e =
     e\<lparr>jobs := map (\<lambda>j. if busy j then j\<lparr>job_status := Pending\<rparr> else j) (jobs e)\<rparr>"

text \<open>The engine states that can be reached are those a sequence of operations leads to
  from the initial state.\<close>

fun run :: "operation list \<Rightarrow> engine \<Rightarrow> engine" where
  "run [] e = e"
| "run (x # xs) e = run xs (step x e)"

section \<open>Concrete values\<close>

text \<open>A Job used in the concrete runs of the handlers.\<close>

definition sample_item :: store_item where
  "sample_item = \<lparr>item_id = ''a'', item_title = Some ''Clip'', item_rest = []\<rparr>"


section \<open>Properties of the socket store\<close>

lemmas store_defs =
  coll_of_def set_coll_def store_has_def store_get_def store_add_def store_update_def
  store_remove_def store_addAll_def notify_def

text \<open>
  C6: whatever the state of the client, the \<^verbatim>\<open>item_deleted\<close> handler (and \<^verbatim>\<open>cleared\<close>
  of the legacy store) leaves the history without the Job of the event, every other
  history entry as it was, and the active queue, the configuration and the
  notifications unchanged.
\<close>

theorem item_deleted_frame:
  "history (on_item_deleted item st) = (history st)(item_id item := None)
   \<and> queue (on_item_deleted item st) = queue st
   \<and> config (on_item_deleted item st) = config st
   \<and> toasts (on_item_deleted item st) = toasts st
   \<and> legacy_on_cleared item st = on_item_deleted item st"
  by (auto simp: on_item_deleted_def legacy_on_cleared_def store_defs Let_def)

text \<open>
  C2: an \<^verbatim>\<open>item_moved\<close> event whose destination is the queue leaves the item in the
  queue and not in the history; one whose destination is the history leaves it in the
  history and not in the queue. The entries of the other Jobs stay as they were, so after
  the handler the item is in exactly one of the two collections, the destination.
\<close>

theorem item_moved_exactly_one:
  "queue (on_item_moved \<lparr>moved_to = ''queue'', moved_item = it\<rparr> st)
     = (queue st)(item_id it \<mapsto> it)
   \<and> history (on_item_moved \<lparr>moved_to = ''queue'', moved_item = it\<rparr> st)
     = (history st)(item_id it := None)
   \<and> store_has CQueue (item_id it) (on_item_moved \<lparr>moved_to = ''queue'', moved_item = it\<rparr> st)
   \<and> \<not> store_has CHistory (item_id it)
         (on_item_moved \<lparr>moved_to = ''queue'', moved_item = it\<rparr> st)
   \<and> history (on_item_moved \<lparr>moved_to = ''history'', moved_item = it\<rparr> st)
     = (history st)(item_id it \<mapsto> it)
   \<and> queue (on_item_moved \<lparr>moved_to = ''history'', moved_item = it\<rparr> st)
     = (queue st)(item_id it := None)
   \<and> store_has CHistory (item_id it)
       (on_item_moved \<lparr>moved_to = ''history'', moved_item = it\<rparr> st)
   \<and> \<not> store_has CQueue (item_id it)
         (on_item_moved \<lparr>moved_to = ''history'', moved_item = it\<rparr> st)"
  by (auto simp: on_item_moved_def store_defs Let_def)

lemma item_moved_keeps_disjoint:
  assumes "dom (queue st) \<inter> dom (history st) = {}"
  shows "dom (queue (on_item_moved d st)) \<inter> dom (history (on_item_moved d st)) = {}"
  using assms by (auto simp: on_item_moved_def store_defs Let_def split: if_splits)

text \<open>
  C3: after the \<^verbatim>\<open>connected\<close> handler the configuration holds the snapshot's app
  config, tasks, folders, presets and download fields, the pause flag is the snapshot's
  flag read as a boolean (a boolean flag \<open>b\<close> gives \<open>b\<close>), and the queue and the
  history are the snapshot's collections (empty when the snapshot has none). The
  \<^verbatim>\<open>initial_data\<close> handler of the legacy store does the same, apart from the download
  fields, which it leaves alone.
\<close>

theorem connected_installs_snapshot:
  "config (on_connected d st) =
     \<lparr>cfg_app = snap_config d, cfg_tasks = snap_tasks d, cfg_folders = snap_folders d,
      cfg_presets = snap_presets d, cfg_dl_fields = snap_dl_fields d,
      cfg_paused = truthy (snap_paused d)\<rparr>
   \<and> queue (on_connected d st) = or_empty (snap_queue d)
   \<and> history (on_connected d st) = or_empty (snap_done d)
   \<and> cfg_paused (config (on_connected (d\<lparr>snap_paused := Some (JBool b)\<rparr>) st)) = b
   \<and> queue (on_connected (d\<lparr>snap_queue := Some q\<rparr>) st) = q
   \<and> history (on_connected (d\<lparr>snap_done := Some h\<rparr>) st) = h
   \<and> config (legacy_on_initial_data d st) =
     \<lparr>cfg_app = snap_config d, cfg_tasks = snap_tasks d, cfg_folders = snap_folders d,
      cfg_presets = snap_presets d, cfg_dl_fields = cfg_dl_fields (config st),
      cfg_paused = truthy (snap_paused d)\<rparr>
   \<and> queue (legacy_on_initial_data d st) = or_empty (snap_queue d)
   \<and> history (legacy_on_initial_data d st) = or_empty (snap_done d)"
  by (simp add: on_connected_def legacy_on_initial_data_def store_defs Let_def or_empty_def)

text \<open>
  C4: whatever the state of the client, after the \<^verbatim>\<open>item_completed\<close> handler the Job of
  the event is not in the active queue and the history holds it with the event's data,
  whether the history had an entry for it before or not; the other entries are untouched.
  The \<^verbatim>\<open>completed\<close> handler of the legacy store ends in the same state.
\<close>

theorem item_completed_moves_to_history:
  "queue (on_item_completed it st) = (queue st)(item_id it := None)
   \<and> history (on_item_completed it st) = (history st)(item_id it \<mapsto> it)
   \<and> \<not> store_has CQueue (item_id it) (on_item_completed it st)
   \<and> store_get CHistory (item_id it) (on_item_completed it st) = Some it
   \<and> legacy_on_completed it st = on_item_completed it st"
  by (auto simp: on_item_completed_def legacy_on_completed_def store_defs Let_def)

text \<open>
  C5: the spec has every Job in exactly one of the active queue and the history, so the
  two collections of the client share no id. In such a state, for a Job that is in the
  active queue when its \<^verbatim>\<open>item_cancelled\<close> event is processed, after the handler the
  Job is in neither the active queue nor the history; the history is what it was, and the
  two collections still share no id. The \<^verbatim>\<open>cancelled\<close> handler of the legacy store ends
  in the same state.
\<close>

theorem item_cancelled_absent_from_both:
  assumes "store_has CQueue (item_id item) st"
    and "dom (queue st) \<inter> dom (history st) = {}"
  shows "\<not> store_has CQueue (item_id item) (on_item_cancelled item st)
       \<and> \<not> store_has CHistory (item_id item) (on_item_cancelled item st)
       \<and> queue (on_item_cancelled item st) = (queue st)(item_id item := None)
       \<and> history (on_item_cancelled item st) = history st
       \<and> dom (queue (on_item_cancelled item st)) \<inter> dom (history (on_item_cancelled item st))
           = {}
       \<and> legacy_on_cancelled item st = on_item_cancelled item st"
proof -
  from assms have "history st (item_id item) = None"
    by (auto simp: store_defs)
  moreover have "queue (on_item_cancelled item st) = (queue st)(item_id item := None)"
    "history (on_item_cancelled item st) = history st"
    "legacy_on_cancelled item st = on_item_cancelled item st"
    using assms(1)
    by (auto simp: on_item_cancelled_def legacy_on_cancelled_def store_defs Let_def)
  ultimately show ?thesis using assms(2) by (auto simp: store_defs)
qed

theorem item_cancelled_absent_from_both_witness:
  "store_has CQueue (item_id sample_item) (on_item_added sample_item empty_client)
   \<and> dom (queue (on_item_added sample_item empty_client))
       \<inter> dom (history (on_item_added sample_item empty_client)) = {}
   \<and> \<not> store_has CQueue (item_id sample_item)
         (on_item_cancelled sample_item (on_item_added sample_item empty_client))
   \<and> \<not> store_has CHistory (item_id sample_item)
         (on_item_cancelled sample_item (on_item_added sample_item empty_client))"
proof -
  have h: "store_has CQueue (item_id sample_item) (on_item_added sample_item empty_client)"
    by (simp add: on_item_added_def store_defs Let_def)
  have d: "dom (queue (on_item_added sample_item empty_client))
       \<inter> dom (history (on_item_added sample_item empty_client)) = {}"
    by (simp add: on_item_added_def store_defs Let_def empty_client_def)
  from h d item_cancelled_absent_from_both [OF h d] show ?thesis by simp
qed

text \<open>
  C7, as the claim states it, fails for the handler of the newer store: it shows
  \<^verbatim>\<open>json.message || json.data.message\<close>, so an event whose message is the empty string
  is shown with the message of its data instead, or with no message when the data has
  none.
\<close>

theorem log_empty_message_counterexample:
  "map toast_message
     (toasts (on_log Log_error
        \<lparr>log_message = Some (JStr []),
         log_data = Some (JObj [(''message'', JStr ''disk full'')])\<rparr> empty_client))
   = [Some (JStr ''disk full'')]
   \<and> Some (JStr ''disk full'') \<noteq> Some (JStr [])
   \<and> map toast_message
       (toasts (on_log Log_error \<lparr>log_message = Some (JStr []), log_data = None\<rparr>
          empty_client))
     = [None]"
  by (simp add: on_log_def store_defs Let_def empty_client_def js_or_def)

text \<open>
  C7, amended: for every log event of kind \<open>k\<close> and every payload, the log handler
  raises exactly one notification, of the severity of \<open>k\<close>, and changes neither the
  queue, nor the history, nor the configuration. The handler of the newer store shows the
  message of the event when that is truthy (a non-empty string), and the message of the
  event's data when the message of the event is empty or missing. The handlers of the
  legacy store show the message of the event as it is, and change nothing else.
\<close>

theorem log_raises_one_notification:
  "toasts (on_log k json st) = toasts st @
     [\<lparr>toast_severity = severity_of k,
       toast_message = (if truthy (log_message json) then log_message json
                        else opt_field ''message'' (log_data json)),
       toast_opts = js_or (js_or (opt_field ''data'' (log_data json)) (log_data json))
                      (Some (JObj []))\<rparr>]
   \<and> queue (on_log k json st) = queue st
   \<and> history (on_log k json st) = history st
   \<and> config (on_log k json st) = config st
   \<and> legacy_on_log k json st = st\<lparr>toasts := toasts st @
       [\<lparr>toast_severity = severity_of k, toast_message = log_message json,
         toast_opts = None\<rparr>]\<rparr>"
  by (cases k) (simp_all add: on_log_def legacy_on_log_def store_defs Let_def js_or_def)

theorem log_raises_one_notification_witness:
  "toasts (on_log Log_error \<lparr>log_message = Some (JStr ''disk full''), log_data = None\<rparr>
        empty_client)
     = [\<lparr>toast_severity = Error, toast_message = Some (JStr ''disk full''),
         toast_opts = Some (JObj [])\<rparr>]
   \<and> toasts (legacy_on_log Log_error \<lparr>log_message = Some (JStr []), log_data = None\<rparr>
        empty_client)
     = [\<lparr>toast_severity = Error, toast_message = Some (JStr []), toast_opts = None\<rparr>]
   \<and> queue (on_log Log_error \<lparr>log_message = Some (JStr ''disk full''), log_data = None\<rparr>
        empty_client) = Map.empty"
  using log_raises_one_notification
     [of Log_error "\<lparr>log_message = Some (JStr ''disk full''), log_data = None\<rparr>" empty_client]
    log_raises_one_notification
     [of Log_error "\<lparr>log_message = Some (JStr []), log_data = None\<rparr>" empty_client]
  by (simp add: empty_client_def js_or_def)

text \<open>
  C9: for every boolean pause value \<open>p\<close>, the \<^verbatim>\<open>paused\<close> handler of the legacy store
  and the handler of the newer store, run on the event that belongs to \<open>p\<close>
  (\<^verbatim>\<open>paused\<close> when \<open>p\<close> is true, \<^verbatim>\<open>resumed\<close> when it is false), leave the client
  in the same state: the pause flag of the configuration is \<open>p\<close>, and one notification
  is added, a warning when \<open>p\<close> is true and a success when it is false. The newer store
  sets the pause flag to \<open>p\<close> on either event.
\<close>

theorem paused_handlers_agree:
  "on_paused_resumed (if p then Ev_paused else Ev_resumed) (Some (JBool p)) st
     = legacy_on_paused (Some (JBool p)) st
   \<and> cfg_paused (config (legacy_on_paused (Some (JBool p)) st)) = p
   \<and> cfg_paused (config (on_paused_resumed (if p then Ev_paused else Ev_resumed)
        (Some (JBool p)) st)) = p
   \<and> map toast_severity (toasts (legacy_on_paused (Some (JBool p)) st))
       = map toast_severity (toasts st) @ [if p then Warning else Success]
   \<and> map toast_severity (toasts (on_paused_resumed (if p then Ev_paused else Ev_resumed)
        (Some (JBool p)) st))
       = map toast_severity (toasts st) @ [if p then Warning else Success]
   \<and> queue (legacy_on_paused (Some (JBool p)) st) = queue st
   \<and> history (legacy_on_paused (Some (JBool p)) st) = history st
   \<and> cfg_paused (config (on_paused_resumed e (Some (JBool p)) st)) = p"
  by (simp add: on_paused_resumed_def legacy_on_paused_def store_defs Let_def)

section \<open>Properties of \<^verbatim>\<open>uri\<close>\<close>

lemma one_trailing_slash:
  assumes "\<not> suffix ''//'' base"
  shows "base = rev (dropWhile (\<lambda>c. c = CHR ''/'') (rev base))
       \<or> base = rev (dropWhile (\<lambda>c. c = CHR ''/'') (rev base)) @ ''/''"
proof (cases "rev base")
  case Nil
  then show ?thesis by simp
next
  case (Cons c cs)
  note rb = Cons
  show ?thesis
  proof (cases "c = CHR ''/''")
    case False
    with rb have "dropWhile (\<lambda>c. c = CHR ''/'') (rev base) = rev base" by simp
    then show ?thesis by simp
  next
    case True
    note c = True
    show ?thesis
    proof (cases cs)
      case Nil
      with rb c have "base = ''/''" by (metis rev_rev_ident rev_singleton_conv)
      then show ?thesis by simp
    next
      case (Cons d ds)
      from rb c Cons have b: "base = rev ds @ [d, CHR ''/'']"
        by (metis append_Cons append_Nil append_assoc rev.simps(2) rev_rev_ident)
      have "d \<noteq> CHR ''/''"
      proof
        assume "d = CHR ''/''"
        with b have "suffix ''//'' base" by (simp add: suffix_def)
        with assms show False by simp
      qed
      with rb c Cons have "dropWhile (\<lambda>c. c = CHR ''/'') (rev base) = d # ds" by simp
      with b show ?thesis by simp
    qed
  qed
qed

text \<open>
  C10, as the claim states it, fails: with the base URL \<^verbatim>\<open>/app//\<close> the path \<^verbatim>\<open>/x\<close>
  becomes \<^verbatim>\<open>/app/x\<close>, which does not start with the base URL (its trailing slashes
  were trimmed), and a second call prefixes it again.
\<close>

theorem uri_not_idempotent_counterexample:
  "uri ''/app//'' ''/x'' = Inr ''/app/x''
   \<and> uri ''/app//'' ''/app/x'' = Inr ''/app/app/x''
   \<and> uri_twice ''/app//'' ''/x'' \<noteq> uri ''/app//'' ''/x''"
  by (simp add: uri_def uri_twice_def eTrim_def sTrim_def iTrim_def)

text \<open>
  C10, amended: for every string \<open>u\<close> and every base URL that does not end in two
  slashes, \<^verbatim>\<open>uri\<close> returns, and applying it to its result returns that result again.
\<close>

theorem uri_idempotent:
  assumes "\<not> suffix ''//'' baseURL"
  shows "uri_twice baseURL u = uri baseURL u
       \<and> (\<exists>r. uri baseURL u = Inr r \<and> uri baseURL r = Inr r)"
proof (cases "u = [] \<or> baseURL = ''/'' \<or> \<not> prefix ''/'' u \<or> prefix baseURL u")
  case True
  then have "uri baseURL u = Inr u" by (auto simp: uri_def)
  then show ?thesis by (simp add: uri_twice_def)
next
  case False
  then have ne: "baseURL \<noteq> []" "u \<noteq> []" by auto
  define b where "b = rev (dropWhile (\<lambda>c. c = CHR ''/'') (rev baseURL))"
  define t where "t = dropWhile (\<lambda>c. c = CHR ''/'') u"
  have r: "uri baseURL u = Inr (b @ ''/'' @ t)"
    using False ne by (simp add: uri_def eTrim_def sTrim_def iTrim_def b_def t_def)
  from one_trailing_slash [OF assms] have "baseURL = b \<or> baseURL = b @ ''/''"
    by (simp add: b_def)
  then have "prefix baseURL (b @ ''/'' @ t)" by (auto simp: prefix_def)
  then have "uri baseURL (b @ ''/'' @ t) = Inr (b @ ''/'' @ t)" by (simp add: uri_def)
  with r show ?thesis by (simp add: uri_twice_def)
qed

theorem uri_idempotent_witness:
  "\<not> suffix ''//'' ''/ytptube/''
   \<and> uri ''/ytptube/'' ''/api/history'' = Inr ''/ytptube/api/history''
   \<and> uri_twice ''/ytptube/'' ''/api/history'' = Inr ''/ytptube/api/history''"
proof -
  have h: "\<not> suffix ''//'' ''/ytptube/''" by (simp add: suffix_to_prefix)
  have "uri ''/ytptube/'' ''/api/history'' = Inr ''/ytptube/api/history''"
    by (simp add: uri_def eTrim_def sTrim_def iTrim_def)
  with h uri_idempotent [OF h, of "''/api/history''"] show ?thesis by simp
qed

section \<open>Properties of the download engine\<close>

lemma busy_dispatch_oldest:
  "length (filter busy (dispatch_oldest js)) \<le> Suc (length (filter busy js))"
  by (induction js) (auto simp: busy_def)

lemma busy_map_le:
  assumes "\<And>j. busy (f j) \<Longrightarrow> busy j"
  shows "length (filter busy (map f js)) \<le> length (filter busy js)"
proof (induction js)
  case Nil
  then show ?case by simp
next
  case (Cons j js)
  then show ?case using assms [of j] by auto
qed

lemma busy_transition_le:
  assumes "\<And>s. f s = Downloading \<or> f s = Postprocessing \<Longrightarrow> s = Downloading \<or> s = Postprocessing"
  shows "length (filter busy (transition i f js)) \<le> length (filter busy js)"
  unfolding transition_def
  by (rule busy_map_le) (use assms in \<open>auto simp: busy_def split: if_splits\<close>)

lemma busy_filter_le: "length (filter busy (filter P js)) \<le> length (filter busy js)"
  by (induction js) auto

lemma step_pool_size: "pool_size (step x e) = pool_size e"
  by (cases x) auto

lemma step_busy:
  assumes "busy_count e \<le> pool_size e"
  shows "busy_count (step x e) \<le> pool_size e"
proof (cases x)
  case Dispatch
  then show ?thesis
    using assms busy_dispatch_oldest [of "jobs e"] by (auto simp: busy_count_def)
next
  case (Cancel i)
  have "length (filter busy (transition i (\<lambda>s. if s = Downloading then Cancelled else s)
          (filter (\<lambda>j. \<not> (job_id j = i \<and> job_status j = Pending)) (jobs e))))
        \<le> length (filter busy (filter (\<lambda>j. \<not> (job_id j = i \<and> job_status j = Pending)) (jobs e)))"
    by (rule busy_transition_le) (auto split: if_splits)
  also have "\<dots> \<le> length (filter busy (jobs e))" by (rule busy_filter_le)
  finally show ?thesis using assms Cancel by (simp add: busy_count_def)
next
  case (Postprocess i)
  have "length (filter busy (transition i (\<lambda>s. if s = Downloading then Postprocessing else s) (jobs e)))
        \<le> length (filter busy (jobs e))"
    by (rule busy_transition_le) (auto split: if_splits)
  then show ?thesis using assms Postprocess by (simp add: busy_count_def)
next
  case (Complete i)
  have "length (filter busy (transition i
          (\<lambda>s. if s = Downloading \<or> s = Postprocessing then Completed else s) (jobs e)))
        \<le> length (filter busy (jobs e))"
    by (rule busy_transition_le) (auto split: if_splits)
  then show ?thesis using assms Complete by (simp add: busy_count_def)
next
  case (Fail i)
  have "length (filter busy (transition i
          (\<lambda>s. if s = Downloading \<or> s = Postprocessing then Errored else s) (jobs e)))
        \<le> length (filter busy (jobs e))"
    by (rule busy_transition_le) (auto split: if_splits)
  then show ?thesis using assms Fail by (simp add: busy_count_def)
next
  case (Delete i)
  then show ?thesis
    using assms busy_filter_le [of "\<lambda>j. job_id j \<noteq> i" "jobs e"] by (simp add: busy_count_def)
next
  case Restart
  have "length (filter busy (map (\<lambda>j. if busy j then j\<lparr>job_status := Pending\<rparr> else j) (jobs e)))
        \<le> length (filter busy (jobs e))"
    by (rule busy_map_le) (auto simp: busy_def split: if_splits)
  then show ?thesis using assms Restart by (simp add: busy_count_def)
qed (use assms in \<open>auto simp: busy_count_def busy_def\<close>)

lemma run_busy:
  "busy_count e \<le> pool_size e \<Longrightarrow>
   busy_count (run xs e) \<le> pool_size e \<and> pool_size (run xs e) = pool_size e"
proof (induction xs arbitrary: e)
  case Nil
  then show ?case by simp
next
  case (Cons x xs)
  from Cons.prems have "busy_count (step x e) \<le> pool_size (step x e)"
    by (simp add: step_busy step_pool_size)
  from Cons.IH [OF this] show ?case by (simp add: step_pool_size)
qed

lemma downloading_le_busy: "downloading_count e \<le> busy_count e"
proof -
  have "length (filter (\<lambda>j. job_status j = Downloading) js) \<le> length (filter busy js)" for js
    by (induction js) (auto simp: busy_def)
  then show ?thesis by (simp add: downloading_count_def busy_count_def)
qed

text \<open>
  C1: for every pool size \<open>n\<close> and every engine state reached from the initial state by
  a sequence of operations, the number of Jobs whose status is downloading is at most
  \<open>n\<close>; so is the number of Jobs that occupy a slot.
\<close>

theorem downloading_bounded:
  "downloading_count (run xs (init_engine n)) \<le> n
   \<and> busy_count (run xs (init_engine n)) \<le> n"
proof -
  have "busy_count (init_engine n) \<le> pool_size (init_engine n)"
    by (simp add: init_engine_def busy_count_def)
  from run_busy [OF this, of xs] have "busy_count (run xs (init_engine n)) \<le> n"
    by (simp add: init_engine_def)
  with downloading_le_busy [of "run xs (init_engine n)"] show ?thesis by simp
qed

theorem downloading_bounded_witness:
  "downloading_count (run [Submit 1, Submit 2, Dispatch, Dispatch] (init_engine 1)) = 1
   \<and> downloading_count (run [Submit 1, Submit 2, Dispatch, Dispatch] (init_engine 1)) \<le> 1"
  using downloading_bounded [of "[Submit 1, Submit 2, Dispatch, Dispatch]" 1]
  by (simp add: init_engine_def downloading_count_def busy_count_def busy_def)

section \<open>Properties of \<^verbatim>\<open>encode\<close> and \<^verbatim>\<open>decode\<close>\<close>

subsection \<open>Bytes and characters\<close>



subsection \<open>Sextets and octets\<close>









subsection \<open>The alphabet\<close>







subsection \<open>The URL-safe text and its padding\<close>






subsection \<open>The round trip\<close>









end
